theory Spec2Isabelle
  imports
    Complex_Main
    "HOL-Library.Char_ord"
    "HOL-Library.List_Lexorder"
    "HOL-Library.Product_Lexorder"
    "HOL-Library.Multiset"
begin

section \<open>Data model\<close>

text \<open>
  A cell of the table as \<^verbatim>\<open>pd.read_csv\<close> hands it over: a number, a piece of text
  that is not a number, or an empty field (pandas' NaN).  Numbers are modelled as reals;
  the missing value NaN of a numeric column is \<open>None\<close>.
\<close>

datatype cell = Num real | Text string | Blank

text \<open>
  The \<^verbatim>\<open>Timestamp\<close> column: the argument handed to \<^verbatim>\<open>pd.to_datetime\<close> (the
  parsing itself is pandas'), or \<^verbatim>\<open>pd.NaT\<close>.
\<close>

datatype stamp = Date_time string | Epoch_seconds cell | NaT

text \<open>
  One row of the frame returned by \<^verbatim>\<open>ensure_columns\<close>: the columns of the uploaded
  table (\<open>raw\<close>, by column name) and the columns the function writes.  The type \<open>'id\<close>
  of the serial is a parameter: the serials are strings when the table is built, and
  strings or numbers when it is read back from the store.
\<close>

record 'id sample =
  raw :: "(string \<times> cell) list"
  SerialID :: 'id
  Channel :: "int option"
  SampleCount :: "real option"
  X :: "real option"
  Timestamp :: stamp

text \<open>A row of the frame returned by \<^verbatim>\<open>add_run_index\<close>: one more column.\<close>

record 'id indexed = "'id sample" +
  RunIndex :: "nat option"

section \<open>Run segmentation\<close>

text \<open>
  \<^verbatim>\<open>df.sort_values(["SerialID", "Channel", "X"], kind="mergesort")\<close>: a stable
  lexicographic sort, ascending, missing values last in each key (pandas' default
  \<^verbatim>\<open>na_position="last"\<close>).
\<close>

definition na_last :: "'a::zero option \<Rightarrow> bool \<times> 'a" where
  "na_last v = (case v of None \<Rightarrow> (True, 0) | Some a \<Rightarrow> (False, a))"

definition sort_columns :: "('id, 'a) sample_scheme \<Rightarrow> 'id \<times> (bool \<times> int) \<times> (bool \<times> real)" where
  "sort_columns r = (SerialID r, na_last (Channel r), na_last (X r))"

definition sort_values ::
  "('id::linorder, 'a) sample_scheme list \<Rightarrow> ('id, 'a) sample_scheme list" where
  "sort_values df = sort_key sort_columns df"

text \<open>
  \<^verbatim>\<open>groupby(["SerialID", "Channel"])\<close> drops the rows whose key holds a missing value
  (pandas' default \<^verbatim>\<open>dropna=True\<close>): such a row belongs to no group, and a
  row-aligned group operation leaves a missing value at its place.  \<open>SerialID\<close> is a
  string and never missing, \<open>Channel\<close> can be.
\<close>

definition group_key :: "('id, 'a) sample_scheme \<Rightarrow> ('id \<times> int) option" where
  "group_key r = (case Channel r of None \<Rightarrow> None | Some c \<Rightarrow> Some (SerialID r, c))"

definition minus_na :: "real option \<Rightarrow> real option \<Rightarrow> real option" where
  "minus_na a b = (case a of None \<Rightarrow> None
                   | Some x \<Rightarrow> (case b of None \<Rightarrow> None | Some y \<Rightarrow> Some (x - y)))"

text \<open>
  \<^verbatim>\<open>.groupby(...)["X"].diff()\<close>: each row's \<open>X\<close> minus the \<open>X\<close> of the previous row
  of its group; missing at the first row of a group.  \<open>prev\<close> holds, for every group met
  so far, the \<open>X\<close> of its latest row.
\<close>

fun group_diff ::
  "('id \<times> int \<rightharpoonup> real option) \<Rightarrow> ('id, 'a) sample_scheme list \<Rightarrow> real option list" where
  "group_diff prev [] = []"
| "group_diff prev (r # rs) =
     (case group_key r of
        None \<Rightarrow> None # group_diff prev rs
      | Some k \<Rightarrow>
          (case prev k of None \<Rightarrow> None | Some p \<Rightarrow> minus_na (X r) p)
            # group_diff (prev(k \<mapsto> X r)) rs)"

definition fillna :: "real \<Rightarrow> real option \<Rightarrow> real" where
  "fillna d v = (case v of None \<Rightarrow> d | Some a \<Rightarrow> a)"

text \<open>
  \<^verbatim>\<open>.groupby([df["SerialID"], df["Channel"]]).cumsum()\<close> of a Boolean column: the
  number of \<open>True\<close> among the rows of the group up to and including the row.
\<close>

fun group_cumsum ::
  "('id \<times> int \<Rightarrow> nat) \<Rightarrow> (('id \<times> int) option \<times> bool) list \<Rightarrow> nat option list" where
  "group_cumsum acc [] = []"
| "group_cumsum acc ((None, b) # rest) = None # group_cumsum acc rest"
| "group_cumsum acc ((Some k, b) # rest) =
     (let c = acc k + (if b then 1 else 0)
      in Some c # group_cumsum (acc(k := c)) rest)"

definition with_run_index :: "'id sample \<Rightarrow> nat option \<Rightarrow> 'id indexed" where
  "with_run_index r i =
     \<lparr>raw = raw r, SerialID = SerialID r, Channel = Channel r,
      SampleCount = SampleCount r, X = X r, Timestamp = Timestamp r, RunIndex = i\<rparr>"

definition run_boundaries :: "'id sample list \<Rightarrow> bool list" where
  "run_boundaries df = map (\<lambda>d. fillna 1 d < 0) (group_diff Map.empty df)"

definition add_run_index :: "'id::linorder sample list \<Rightarrow> 'id indexed list" where
  "add_run_index df0 =
     (let df = sort_values df0
      in map2 with_run_index df
           (group_cumsum (\<lambda>k. 0) (zip (map group_key df) (run_boundaries df))))"

section \<open>Latest-run filter\<close>

fun max_skipna :: "nat option list \<Rightarrow> nat option" where
  "max_skipna [] = None"
| "max_skipna (None # vs) = max_skipna vs"
| "max_skipna (Some v # vs) =
     (case max_skipna vs of None \<Rightarrow> Some v | Some m \<Rightarrow> Some (max v m))"

text \<open>
  \<^verbatim>\<open>df.groupby(["SerialID", "Channel"])["RunIndex"].transform("max")\<close>: at each row the
  maximum (missing values skipped) over the row's group, missing where the row has no
  group.
\<close>

definition latest :: "'id indexed list \<Rightarrow> 'id indexed \<Rightarrow> nat option" where
  "latest df r =
     (case group_key r of
        None \<Rightarrow> None
      | Some k \<Rightarrow> max_skipna (map RunIndex (filter (\<lambda>q. group_key q = Some k) df)))"

text \<open>\<^verbatim>\<open>==\<close> on columns: a missing value equals nothing, itself included.\<close>

definition eq_na :: "nat option \<Rightarrow> nat option \<Rightarrow> bool" where
  "eq_na a b = (case a of None \<Rightarrow> False | Some x \<Rightarrow> (case b of None \<Rightarrow> False | Some y \<Rightarrow> x = y))"

definition keep_latest_run_only :: "'id indexed list \<Rightarrow> 'id indexed list" where
  "keep_latest_run_only df = filter (\<lambda>r. eq_na (RunIndex r) (latest df r)) df"

section \<open>Schema normalisation\<close>

text \<open>
  The table handed to \<^verbatim>\<open>ensure_columns\<close>: the column names and the rows, each row
  holding one cell per column.
\<close>

record frame =
  columns :: "string list"
  body :: "cell list list"

datatype error = ValueError string | KeyError string | TypeError string

definition cell_of :: "frame \<Rightarrow> cell list \<Rightarrow> string \<Rightarrow> cell" where
  "cell_of df rec name = (case map_of (zip (columns df) rec) name of None \<Rightarrow> Blank | Some c \<Rightarrow> c)"

text \<open>
  \<^verbatim>\<open>.astype(str)\<close>: text stays, a missing value reads \<^verbatim>\<open>nan\<close>, a number is printed
  by Python (\<open>fmt\<close>, a parameter of the model).
\<close>

definition astype_str :: "(real \<Rightarrow> string) \<Rightarrow> cell \<Rightarrow> string" where
  "astype_str fmt c = (case c of Num v \<Rightarrow> fmt v | Text s \<Rightarrow> s | Blank \<Rightarrow> ''nan'')"

text \<open>
  \<^verbatim>\<open>.str.strip()\<close> removes the characters Python counts as whitespace from both ends.
  A \<open>char\<close> stands for a code point below 256; the whitespace among these is listed.
\<close>

definition is_space :: "char \<Rightarrow> bool" where
  "is_space c = (c \<in> set [CHR '' '', CHR 0x09, CHR 0x0A, CHR 0x0B, CHR 0x0C, CHR 0x0D,
                            CHR 0x1C, CHR 0x1D, CHR 0x1E, CHR 0x1F, CHR 0x85, CHR 0xA0])"

definition strip :: "string \<Rightarrow> string" where
  "strip s = rev (dropWhile is_space (rev (dropWhile is_space s)))"

text \<open>\<^verbatim>\<open>pd.to_numeric(..., errors="coerce")\<close>: what is not a number becomes missing.\<close>

definition to_numeric :: "cell \<Rightarrow> real option" where
  "to_numeric c = (case c of Num v \<Rightarrow> Some v | Text s \<Rightarrow> None | Blank \<Rightarrow> None)"

text \<open>
  \<^verbatim>\<open>.astype("Int64")\<close> on a float column: pandas casts only when every value present is
  a whole number that a signed 64-bit integer holds, and raises \<^verbatim>\<open>TypeError\<close> (cannot
  safely cast non-equivalent float64 to int64) otherwise.
\<close>

definition is_whole :: "real option \<Rightarrow> bool" where
  "is_whole v =
     (case v of
        None \<Rightarrow> True
      | Some a \<Rightarrow> of_int \<lfloor>a\<rfloor> = a \<and> - (2 ^ 63) \<le> \<lfloor>a\<rfloor> \<and> \<lfloor>a\<rfloor> < 2 ^ 63)"

definition astype_Int64 :: "real option list \<Rightarrow> error + int option list" where
  "astype_Int64 vs =
     (if list_all is_whole vs then Inr (map (map_option floor) vs)
      else Inl (TypeError ''cannot safely cast non-equivalent float64 to int64''))"

definition timestamp_of :: "(real \<Rightarrow> string) \<Rightarrow> frame \<Rightarrow> cell list \<Rightarrow> stamp" where
  "timestamp_of fmt df rec =
     (if ''Date'' \<in> set (columns df) \<and> ''Time'' \<in> set (columns df)
      then Date_time (astype_str fmt (cell_of df rec ''Date'') @ '' ''
                        @ astype_str fmt (cell_of df rec ''Time''))
      else if ''FileMTime'' \<in> set (columns df)
      then Epoch_seconds (cell_of df rec ''FileMTime'')
      else NaT)"

definition normalized :: "(real \<Rightarrow> string) \<Rightarrow> frame \<Rightarrow> cell list \<Rightarrow> int option \<Rightarrow> string sample" where
  "normalized fmt df rec ch =
     \<lparr>raw = zip (columns df) rec,
      SerialID = strip (astype_str fmt (cell_of df rec ''SerialNumber'')),
      Channel = ch,
      SampleCount = to_numeric (cell_of df rec ''SampleCount''),
      X = to_numeric (cell_of df rec ''SampleCount''),
      Timestamp = timestamp_of fmt df rec\<rparr>"

text \<open>
  \<^verbatim>\<open>ensure_columns\<close>, statement by statement: the check of \<^verbatim>\<open>SerialNumber\<close>, then
  the reads \<^verbatim>\<open>df["Channel"]\<close> and \<^verbatim>\<open>df["SampleCount"]\<close>, each a \<^verbatim>\<open>KeyError\<close>
  on a table without the column.
\<close>

definition ensure_columns :: "(real \<Rightarrow> string) \<Rightarrow> frame \<Rightarrow> error + string sample list" where
  "ensure_columns fmt df =
     (if ''SerialNumber'' \<notin> set (columns df) then Inl (ValueError ''Missing SerialNumber column'')
      else if ''Channel'' \<notin> set (columns df) then Inl (KeyError ''Channel'')
      else
        (case astype_Int64 (map (\<lambda>rec. to_numeric (cell_of df rec ''Channel'')) (body df)) of
           Inl e \<Rightarrow> Inl e
         | Inr channel \<Rightarrow>
             if ''SampleCount'' \<notin> set (columns df) then Inl (KeyError ''SampleCount'')
             else Inr (map2 (normalized fmt df) (body df) channel)))"

section \<open>Upload\<close>

text \<open>
  \<^verbatim>\<open>load_csv\<close>.  \<open>parse\<close> stands for \<^verbatim>\<open>parse_uploaded_csv\<close> (base64 and CSV
  decoding are the libraries'); \<open>file\<close> is the content of \<^verbatim>\<open>data.csv\<close>.  The result is
  the file afterwards and either the exception raised or the two outputs of the callback:
  the stored dataset and the options of the serial selector.
\<close>

definition load_csv ::
  "(string \<Rightarrow> error + frame) \<Rightarrow> (real \<Rightarrow> string) \<Rightarrow> string \<Rightarrow> string indexed list option
     \<Rightarrow> string indexed list option \<times> (error + string indexed list \<times> string list)" where
  "load_csv parse fmt contents file =
     (case parse contents of
        Inl e \<Rightarrow> (file, Inl e)
      | Inr df0 \<Rightarrow>
          (case ensure_columns fmt df0 of
             Inl e \<Rightarrow> (file, Inl e)
           | Inr df1 \<Rightarrow>
               (let df = add_run_index df1;
                    serials = sort (remdups (map SerialID df))
                in (Some df, Inr (df, serials)))))"

section \<open>Plot\<close>

datatype metric = HGO | LGO | LTC | RAW | VMain

definition METRICS :: "metric list" where
  "METRICS = [HGO, LGO, LTC, RAW, VMain]"

fun metric_name :: "metric \<Rightarrow> string" where
  "metric_name HGO = ''HGO''"
| "metric_name LGO = ''LGO''"
| "metric_name LTC = ''LTC''"
| "metric_name RAW = ''RAW''"
| "metric_name VMain = ''VMain''"

text \<open>\<^verbatim>\<open>px.colors.qualitative.Plotly\<close>, the palette of the plotting library.\<close>

definition COLOR_POOL :: "string list" where
  "COLOR_POOL = [''#636EFA'', ''#EF553B'', ''#00CC96'', ''#AB63FA'', ''#FFA15A'',
                 ''#19D3F3'', ''#FF6692'', ''#B6E880'', ''#FF97FF'', ''#FECB52'']"

text \<open>
  The texts the callback returns, by their parts: the run label
  (\<^verbatim>\<open>""\<close>, \<^verbatim>\<open>"No valid serials selected"\<close>, \<^verbatim>\<open>"Comparing {n} serial(s)"\<close>,
  \<^verbatim>\<open>"All serials (latest run)"\<close>), the warning (\<^verbatim>\<open>""\<close> or
  \<^verbatim>\<open>"No data for: "\<close> followed by the identifiers joined with commas) and the two
  subplot titles (the metric with the range up to \<^verbatim>\<open>top_n\<close>, and from
  \<^verbatim>\<open>top_n + 1\<close> on).
\<close>

datatype label = No_label | No_valid_serials | Comparing nat | All_serials

datatype warning = No_warning | No_data_for "string list"

datatype title = Title_upto metric int int | Title_from metric int

text \<open>
  A serial of the table \<^verbatim>\<open>update_plot\<close> reads back from the store: a string, or a
  number when \<^verbatim>\<open>pd.read_json\<close> has converted the column.  A string never equals a
  number.  \<open>serial_key\<close> orders the serials of one kind as Python's \<^verbatim>\<open>sorted\<close> does (a
  column holds one kind only).
\<close>

datatype serial = Str string | Number real

definition serial_key :: "serial \<Rightarrow> bool \<times> real \<times> string" where
  "serial_key s = (case s of Number v \<Rightarrow> (False, v, []) | Str t \<Rightarrow> (True, 0, t))"

text \<open>
  The name of a trace: the serial itself (\<^verbatim>\<open>name=s\<close>) or the serial followed by
  \<^verbatim>\<open>(mean)\<close> (\<^verbatim>\<open>name=f"{s} (mean)"\<close>).
\<close>

datatype legend_name = Series serial | Mean_of serial

text \<open>One call of \<^verbatim>\<open>fig.add_scatter\<close>: the arguments the callback passes.\<close>

record trace =
  t_row :: nat
  t_x :: "real option list"
  t_y :: "real option list"
  t_name :: "legend_name option"
  t_mode :: "string option"
  t_color :: string
  t_dash :: "string option"
  t_width :: "nat option"
  t_showlegend :: bool

text \<open>
  A figure: the empty \<^verbatim>\<open>px.line()\<close>, or the two stacked panels of
  \<^verbatim>\<open>make_subplots\<close> with their titles and the traces in the order they were added
  (the layout update is the same for every figure and is left out).
\<close>

datatype figure = Empty_figure | Subplots "title list" "trace list"

text \<open>Comparisons of a numeric column with a number: false at a missing value.\<close>

definition le_na :: "real option \<Rightarrow> int \<Rightarrow> bool" where
  "le_na v n = (case v of None \<Rightarrow> False | Some a \<Rightarrow> a \<le> of_int n)"

definition gt_na :: "real option \<Rightarrow> int \<Rightarrow> bool" where
  "gt_na v n = (case v of None \<Rightarrow> False | Some a \<Rightarrow> a > of_int n)"

definition df_top :: "'id indexed list \<Rightarrow> int \<Rightarrow> 'id indexed list" where
  "df_top df top_n = filter (\<lambda>r. le_na (X r) top_n) df"

definition df_bot :: "'id indexed list \<Rightarrow> int \<Rightarrow> 'id indexed list" where
  "df_bot df top_n = filter (\<lambda>r. gt_na (X r) top_n) df"

text \<open>Column statistics of pandas: missing values are skipped.\<close>

definition observed :: "'a option list \<Rightarrow> 'a list" where
  "observed vs = List.map_filter id vs"

definition mean :: "real option list \<Rightarrow> real option" where
  "mean vs =
     (let ys = observed vs
      in if ys = [] then None else Some (sum_list ys / real (length ys)))"

text \<open>\<^verbatim>\<open>.std(ddof=1)\<close>: missing (NaN) with fewer than two values present.\<close>

definition std :: "real option list \<Rightarrow> real option" where
  "std vs =
     (let ys = observed vs; n = length ys
      in if n < 2 then None
         else Some (sqrt (sum_list (map (\<lambda>v. (v - sum_list ys / real n)\<^sup>2) ys) / real (n - 1))))"

definition min_skipna :: "real option list \<Rightarrow> real option" where
  "min_skipna vs = (case observed vs of [] \<Rightarrow> None | a # as \<Rightarrow> Some (fold min as a))"

definition max_x :: "real option list \<Rightarrow> real option" where
  "max_x vs = (case observed vs of [] \<Rightarrow> None | a # as \<Rightarrow> Some (fold max as a))"

definition plus_na :: "real option \<Rightarrow> real option \<Rightarrow> real option" where
  "plus_na a b = (case a of None \<Rightarrow> None
                  | Some u \<Rightarrow> (case b of None \<Rightarrow> None | Some v \<Rightarrow> Some (u + v)))"

text \<open>
  \<^verbatim>\<open>g[metric]\<close> and the statistics on it: a \<^verbatim>\<open>KeyError\<close> when the table has no such
  column, a \<^verbatim>\<open>TypeError\<close> from \<^verbatim>\<open>.mean()\<close> when the column of the stored table
  \<open>whole\<close> holds text (it is then not a numeric column).
\<close>

definition metric_cell :: "'id indexed \<Rightarrow> metric \<Rightarrow> cell option" where
  "metric_cell r m = map_of (raw r) (metric_name m)"

definition is_text :: "cell option \<Rightarrow> bool" where
  "is_text c = (case c of Some (Text s) \<Rightarrow> True | _ \<Rightarrow> False)"

definition metric_value :: "'id indexed \<Rightarrow> metric \<Rightarrow> real option" where
  "metric_value r m = (case metric_cell r m of Some (Num v) \<Rightarrow> Some v | _ \<Rightarrow> None)"

definition metric_column ::
  "'id indexed list \<Rightarrow> 'id indexed list \<Rightarrow> metric \<Rightarrow> error + real option list" where
  "metric_column whole g m =
     (if list_ex (\<lambda>r. metric_cell r m = None) g then Inl (KeyError (metric_name m))
      else if list_ex (\<lambda>r. is_text (metric_cell r m)) whole
      then Inl (TypeError ''Could not convert to numeric'')
      else Inr (map (\<lambda>r. metric_value r m) g))"

text \<open>
  \<^verbatim>\<open>color_map = {s: COLOR_POOL[i % len(COLOR_POOL)] for i, s in enumerate(serials)}\<close>:
  a later entry of the same serial replaces an earlier one.
\<close>

definition color_map :: "serial list \<Rightarrow> (serial \<rightharpoonup> string)" where
  "color_map serials =
     fold (\<lambda>(i, s) cm. cm(s \<mapsto> COLOR_POOL ! (i mod length COLOR_POOL)))
       (enumerate 0 serials) Map.empty"

text \<open>The body of the inner loop for one serial with rows in the panel: the traces added.\<close>

definition main_trace ::
  "string \<Rightarrow> nat \<Rightarrow> serial \<Rightarrow> serial indexed list \<Rightarrow> real option list \<Rightarrow> trace" where
  "main_trace col row_idx s g ys =
     \<lparr>t_row = row_idx, t_x = map X g, t_y = ys, t_name = Some (Series s), t_mode = None,
      t_color = col, t_dash = None, t_width = None, t_showlegend = (row_idx = 1)\<rparr>"

definition mean_trace ::
  "string \<Rightarrow> nat \<Rightarrow> serial \<Rightarrow> serial indexed list \<Rightarrow> real option list \<Rightarrow> trace" where
  "mean_trace col row_idx s g ys =
     \<lparr>t_row = row_idx, t_x = [min_skipna (map X g), max_x (map X g)],
      t_y = [mean ys, mean ys], t_name = Some (Mean_of s), t_mode = Some ''lines'',
      t_color = col, t_dash = Some ''dash'', t_width = Some 2, t_showlegend = (row_idx = 1)\<rparr>"

definition sigma_trace :: "string \<Rightarrow> nat \<Rightarrow> serial indexed list \<Rightarrow> real option \<Rightarrow> trace" where
  "sigma_trace col row_idx g level =
     \<lparr>t_row = row_idx, t_x = [min_skipna (map X g), max_x (map X g)],
      t_y = [level, level], t_name = None, t_mode = Some ''lines'',
      t_color = col, t_dash = Some ''dot'', t_width = None, t_showlegend = False\<rparr>"

definition overlay ::
  "string \<Rightarrow> nat \<Rightarrow> serial \<Rightarrow> serial indexed list \<Rightarrow> real option list \<Rightarrow> trace list" where
  "overlay col row_idx s g ys =
     [main_trace col row_idx s g ys, mean_trace col row_idx s g ys]
     @ (if std ys \<noteq> None
        then [sigma_trace col row_idx g (plus_na (mean ys) (std ys)),
              sigma_trace col row_idx g (minus_na (mean ys) (std ys))]
        else [])"

text \<open>
  \<^verbatim>\<open>for s in serials\<close> within one panel; the first exception ends the callback.  The
  lookup \<^verbatim>\<open>color_map[s]\<close> has a branch for a serial without a colour, which no serial
  of the loop takes (lemma \<open>color_map_defined\<close>).
\<close>

fun serial_loop ::
  "serial indexed list \<Rightarrow> metric \<Rightarrow> (serial \<rightharpoonup> string) \<Rightarrow> serial indexed list \<Rightarrow> nat
     \<Rightarrow> serial list \<Rightarrow> error + trace list" where
  "serial_loop whole m cm row_df row_idx [] = Inr []"
| "serial_loop whole m cm row_df row_idx (s # ss) =
     (let g = filter (\<lambda>r. SerialID r = s) row_df
      in if g = [] then serial_loop whole m cm row_df row_idx ss
         else
           (case metric_column whole g m of
              Inl e \<Rightarrow> Inl e
            | Inr ys \<Rightarrow>
                (case cm s of
                   None \<Rightarrow> Inl (KeyError ''color_map'')
                 | Some col \<Rightarrow>
                     (case serial_loop whole m cm row_df row_idx ss of
                        Inl e \<Rightarrow> Inl e
                      | Inr rest \<Rightarrow> Inr (overlay col row_idx s g ys @ rest)))))"

text \<open>
  The part of \<^verbatim>\<open>update_plot\<close> after the serials are chosen: the selection of their rows,
  the two panels and the loop \<^verbatim>\<open>for row_df, row_idx in [(df_top, 1), (df_bot, 2)]\<close>.
\<close>

definition build_figure ::
  "serial indexed list \<Rightarrow> serial indexed list \<Rightarrow> metric \<Rightarrow> serial list \<Rightarrow> int
     \<Rightarrow> error + figure" where
  "build_figure whole df0 m serials top_n =
     (let df = filter (\<lambda>r. SerialID r \<in> set serials) df0;
          titles = [Title_upto m 1 top_n, Title_from m (top_n + 1)];
          cm = color_map serials
      in case serial_loop whole m cm (df_top df top_n) 1 serials of
           Inl e \<Rightarrow> Inl e
         | Inr upper \<Rightarrow>
             (case serial_loop whole m cm (df_bot df top_n) 2 serials of
                Inl e \<Rightarrow> Inl e
              | Inr lower \<Rightarrow> Inr (Subplots titles (upper @ lower))))"

text \<open>
  \<^verbatim>\<open>pd.read_json(data, orient="split")\<close> on what \<^verbatim>\<open>load_csv\<close> stored.  Reading
  back infers the column types again: a column of strings that all read as numbers
  becomes a numeric column.  \<open>SerialID\<close> is the one column of strings \<^verbatim>\<open>update_plot\<close>
  uses; the numeric columns come back as they were stored.  \<open>to_float\<close> is Python's
  \<^verbatim>\<open>float\<close> on a string, a parameter of the model: the number read, \<open>None\<close> where it
  raises.  The strings \<^verbatim>\<open>float\<close> reads as \<^verbatim>\<open>nan\<close> or as an infinity have no real
  number; the model does not cover a table with such a serial.
\<close>

definition with_serial :: "'a indexed \<Rightarrow> 'b \<Rightarrow> 'b indexed" where
  "with_serial r v =
     \<lparr>raw = raw r, SerialID = v, Channel = Channel r, SampleCount = SampleCount r, X = X r,
      Timestamp = Timestamp r, RunIndex = RunIndex r\<rparr>"

definition as_number :: "(string \<Rightarrow> real option) \<Rightarrow> string \<Rightarrow> serial" where
  "as_number to_float s = (case to_float s of None \<Rightarrow> Str s | Some v \<Rightarrow> Number v)"

definition read_json :: "(string \<Rightarrow> real option) \<Rightarrow> string indexed list \<Rightarrow> serial indexed list" where
  "read_json to_float data =
     (if list_all (\<lambda>r. to_float (SerialID r) \<noteq> None) data
      then map (\<lambda>r. with_serial r (as_number to_float (SerialID r))) data
      else map (\<lambda>r. with_serial r (Str (SerialID r))) data)"

definition requested :: "string list option \<Rightarrow> string list" where
  "requested compare_serials = (case compare_serials of None \<Rightarrow> [] | Some cs \<Rightarrow> cs)"

text \<open>
  \<^verbatim>\<open>update_plot\<close>.  \<open>data\<close> is the stored dataset (\<open>None\<close> before the first upload),
  \<open>compare_serials\<close> the value of the multi-selector (\<open>None\<close> or a list of strings; both
  \<open>None\<close> and the empty list fail the test \<^verbatim>\<open>if compare_serials\<close>), \<open>top_n\<close> the
  split threshold, an integer.  A selected string \<open>s\<close> is compared with the serials of
  the table read back: \<^verbatim>\<open>s in all_serials\<close> is \<open>Str s \<in> set all_serials\<close>.
\<close>

definition update_plot ::
  "(string \<Rightarrow> real option) \<Rightarrow> string indexed list option \<Rightarrow> metric \<Rightarrow> string list option \<Rightarrow> int
     \<Rightarrow> error + figure \<times> label \<times> warning" where
  "update_plot to_float data m compare_serials top_n =
     (case data of
        None \<Rightarrow> Inr (Empty_figure, No_label, No_warning)
      | Some stored \<Rightarrow>
          (let whole = read_json to_float stored;
               df = keep_latest_run_only whole;
               all_serials = sort_key serial_key (remdups (map SerialID df))
           in if requested compare_serials \<noteq> []
              then
                (let valid = filter (\<lambda>s. Str s \<in> set all_serials) (requested compare_serials);
                     missing = filter (\<lambda>s. Str s \<notin> set all_serials) (requested compare_serials)
                 in if valid = []
                    then Inr (Empty_figure, No_valid_serials, No_data_for missing)
                    else
                      (case build_figure whole df m (map Str valid) top_n of
                         Inl e \<Rightarrow> Inl e
                       | Inr fig \<Rightarrow>
                           Inr (fig, Comparing (length valid),
                                if missing \<noteq> [] then No_data_for missing else No_warning)))
              else
                (case build_figure whole df m all_serials top_n of
                   Inl e \<Rightarrow> Inl e
                 | Inr fig \<Rightarrow> Inr (fig, All_serials, No_warning))))"

section \<open>The dashboard\<close>

text \<open>A row of the table \<^verbatim>\<open>stats-table\<close>, by the columns the layout declares.\<close>

record stats_row =
  st_serial :: string
  st_channel :: "int option"
  st_metric :: string
  st_mean :: "real option"
  st_stddev :: "real option"
  st_n :: nat

text \<open>
  The state the callbacks read and write: the file \<^verbatim>\<open>data.csv\<close>, the properties of
  the components named in the layout that are an input or an output of a callback, and
  the rows of \<^verbatim>\<open>stats-table\<close>.
\<close>

record app =
  data_csv :: "string indexed list option"
  data_store :: "string indexed list option"
  compare_options :: "string list"
  metric_dropdown :: metric
  compare_serials :: "string list option"
  top_n_value :: int
  plot :: figure
  run_label :: label
  compare_warning :: warning
  stats_table :: "stats_row list"

text \<open>
  The layout: metric \<^verbatim>\<open>RAW\<close>, no serial selected, threshold 100, nothing stored, a
  table without rows; \<open>f\<close> is what the file holds when the server starts.  The figure
  and the two texts are those of the first call of \<^verbatim>\<open>update_plot\<close>, which has no data.
\<close>

definition layout :: "string indexed list option \<Rightarrow> app" where
  "layout f =
     \<lparr>data_csv = f, data_store = None, compare_options = [], metric_dropdown = RAW,
      compare_serials = None, top_n_value = 100, plot = Empty_figure, run_label = No_label,
      compare_warning = No_warning, stats_table = []\<rparr>"

text \<open>
  A callback that raises leaves its outputs as they are.  \<^verbatim>\<open>update_plot\<close> runs whenever
  one of its four inputs changes.
\<close>

definition refresh_plot :: "(string \<Rightarrow> real option) \<Rightarrow> app \<Rightarrow> app" where
  "refresh_plot to_float st =
     (case update_plot to_float (data_store st) (metric_dropdown st) (compare_serials st) (top_n_value st) of
        Inl e \<Rightarrow> st
      | Inr (fig, lab, warn) \<Rightarrow> st\<lparr>plot := fig, run_label := lab, compare_warning := warn\<rparr>)"

definition on_upload ::
  "(string \<Rightarrow> error + frame) \<Rightarrow> (real \<Rightarrow> string) \<Rightarrow> (string \<Rightarrow> real option) \<Rightarrow> string \<Rightarrow> app
     \<Rightarrow> app" where
  "on_upload parse fmt to_float contents st =
     (case load_csv parse fmt contents (data_csv st) of
        (f, Inl e) \<Rightarrow> st\<lparr>data_csv := f\<rparr>
      | (f, Inr (df, serials)) \<Rightarrow>
          refresh_plot to_float
            (st\<lparr>data_csv := f, data_store := Some df, compare_options := serials\<rparr>))"

datatype event =
  Upload string | Select_metric metric | Select_serials "string list option" | Set_top_n int

fun handle ::
  "(string \<Rightarrow> error + frame) \<Rightarrow> (real \<Rightarrow> string) \<Rightarrow> (string \<Rightarrow> real option) \<Rightarrow> event \<Rightarrow> app
     \<Rightarrow> app" where
  "handle parse fmt to_float (Upload contents) st = on_upload parse fmt to_float contents st"
| "handle parse fmt to_float (Select_metric m) st =
     refresh_plot to_float (st\<lparr>metric_dropdown := m\<rparr>)"
| "handle parse fmt to_float (Select_serials cs) st =
     refresh_plot to_float (st\<lparr>compare_serials := cs\<rparr>)"
| "handle parse fmt to_float (Set_top_n n) st = refresh_plot to_float (st\<lparr>top_n_value := n\<rparr>)"

section \<open>Worked examples\<close>

text \<open>
  The row of an upload with the columns \<^verbatim>\<open>SerialNumber, Channel, SampleCount, RAW\<close>
  after \<^verbatim>\<open>ensure_columns\<close>: serial \<open>s\<close>, channel \<open>c\<close>, sample count \<open>n\<close>, value \<open>v\<close>.
\<close>

definition reading :: "string \<Rightarrow> int \<Rightarrow> real \<Rightarrow> real \<Rightarrow> string sample" where
  "reading s c n v =
     \<lparr>raw = [(''SerialNumber'', Text s), (''Channel'', Num (of_int c)),
             (''SampleCount'', Num n), (''RAW'', Num v)],
      SerialID = s, Channel = Some c, SampleCount = Some n, X = Some n, Timestamp = NaT\<rparr>"

text \<open>One device, one channel, the sample counts 1, 2, 3, 1, 2: a restart after three samples.\<close>

definition restart_upload :: frame where
  "restart_upload =
     \<lparr>columns = [''SerialNumber'', ''Channel'', ''SampleCount'', ''RAW''],
      body = [[Text ''A'', Num 1, Num 1, Num 10], [Text ''A'', Num 1, Num 2, Num 11],
              [Text ''A'', Num 1, Num 3, Num 12], [Text ''A'', Num 1, Num 1, Num 13],
              [Text ''A'', Num 1, Num 2, Num 14]]\<rparr>"

definition restart_example :: "string sample list" where
  "restart_example =
     [reading ''A'' 1 1 10, reading ''A'' 1 2 11, reading ''A'' 1 3 12,
      reading ''A'' 1 1 13, reading ''A'' 1 2 14]"

text \<open>
  A stored table with two runs of device A, channel 1, and one run of device B, channel 2.
\<close>

definition two_runs :: "string indexed list" where
  "two_runs =
     [with_run_index (reading ''A'' 1 1 10) (Some 0), with_run_index (reading ''A'' 1 2 11) (Some 0),
      with_run_index (reading ''A'' 1 3 12) (Some 0), with_run_index (reading ''A'' 1 1 13) (Some 1),
      with_run_index (reading ''A'' 1 2 14) (Some 1), with_run_index (reading ''B'' 2 7 15) (Some 0)]"



text \<open>
  The row of an upload whose \<^verbatim>\<open>SampleCount\<close> field reads \<^verbatim>\<open>n/a\<close>, after
  \<^verbatim>\<open>ensure_columns\<close>: the sample count and \<open>X\<close> are missing.
\<close>

definition unreadable_count :: "string \<Rightarrow> int \<Rightarrow> real \<Rightarrow> string sample" where
  "unreadable_count s c v =
     \<lparr>raw = [(''SerialNumber'', Text s), (''Channel'', Num (of_int c)),
             (''SampleCount'', Text ''n/a''), (''RAW'', Num v)],
      SerialID = s, Channel = Some c, SampleCount = None, X = None, Timestamp = NaT\<rparr>"

definition mixed_counts :: "string indexed list" where
  "mixed_counts =
     [with_run_index (reading ''A'' 1 1 10) (Some 0), with_run_index (reading ''A'' 1 2 11) (Some 0),
      with_run_index (reading ''A'' 1 3 12) (Some 0), with_run_index (unreadable_count ''A'' 1 13) (Some 0)]"

text \<open>
  A stand-in for Python's printing of numbers, for examples in which no number is
  printed.
\<close>

definition example_fmt :: "real \<Rightarrow> string" where
  "example_fmt v = ''0''"

text \<open>Uploads without a \<^verbatim>\<open>Channel\<close> column, with unreadable fields, with a
  fractional channel, with a channel beyond 64 bits, and without a \<^verbatim>\<open>SerialNumber\<close>
  column.\<close>

definition no_channel_upload :: frame where
  "no_channel_upload =
     \<lparr>columns = [''SerialNumber'', ''SampleCount'', ''RAW''],
      body = [[Text ''A'', Num 1, Num 10]]\<rparr>"

definition unreadable_upload :: frame where
  "unreadable_upload =
     \<lparr>columns = [''SerialNumber'', ''Channel'', ''SampleCount'', ''RAW''],
      body = [[Text ''A'', Num 1, Num 1, Num 10], [Text '' A '', Text ''x'', Text ''n/a'', Blank]]\<rparr>"

definition fractional_channel_upload :: frame where
  "fractional_channel_upload =
     \<lparr>columns = [''SerialNumber'', ''Channel'', ''SampleCount'', ''RAW''],
      body = [[Text ''A'', Num (3 / 2), Num 1, Num 10]]\<rparr>"

definition huge_channel_upload :: frame where
  "huge_channel_upload =
     \<lparr>columns = [''SerialNumber'', ''Channel'', ''SampleCount'', ''RAW''],
      body = [[Text ''A'', Num (2 ^ 63), Num 1, Num 10]]\<rparr>"

definition no_serial_upload :: frame where
  "no_serial_upload =
     \<lparr>columns = [''Channel'', ''SampleCount'', ''RAW''],
      body = [[Num 1, Num 1, Num 10]]\<rparr>"

text \<open>A dashboard after an upload, with a serial selected that the table does not hold.\<close>

definition running_app :: app where
  "running_app =
     \<lparr>data_csv = Some two_runs, data_store = Some two_runs, compare_options = [''A'', ''B''],
      metric_dropdown = RAW, compare_serials = Some [''Z''], top_n_value = 100,
      plot = Empty_figure, run_label = No_valid_serials, compare_warning = No_data_for [''Z''],
      stats_table = []\<rparr>"

section \<open>Notions of the specification\<close>

text \<open>
  The run indices present in the group \<open>k\<close> of a table: the set whose maximum the
  latest-run filter is specified by.
\<close>

definition run_indices :: "'id indexed list \<Rightarrow> 'id \<times> int \<Rightarrow> nat set" where
  "run_indices df k = {i. \<exists>r\<in>set df. group_key r = Some k \<and> RunIndex r = Some i}"

text \<open>
  The sample standard deviation of the spec: the square root of the sum of squared
  deviations from the mean, divided by N - 1.
\<close>

definition sample_std :: "real list \<Rightarrow> real" where
  "sample_std obs =
     sqrt ((\<Sum>v\<leftarrow>obs. (v - sum_list obs / real (length obs))\<^sup>2) / real (length obs - 1))"

text \<open>The colour \<^verbatim>\<open>color_map[s]\<close> of a selected serial.\<close>

definition color_of :: "serial list \<Rightarrow> serial \<Rightarrow> string" where
  "color_of serials s = (case color_map serials s of None \<Rightarrow> [] | Some c \<Rightarrow> c)"

text \<open>
  The x-range a device is observed on in a panel: the least and the greatest of its
  present x-values, missing when it has none.
\<close>

definition x_range :: "real option list \<Rightarrow> real option list" where
  "x_range xs =
     (if observed xs = [] then [None, None]
      else [Some (Min (set (observed xs))), Some (Max (set (observed xs)))])"

text \<open>
  The traces of one device in one panel as the spec words them, each with the arguments
  it is drawn with.  Nothing for a device without rows in the panel.  Otherwise: the raw
  series, the metric values of the device's rows against their x-values, named by the
  device; the mean line, horizontal at the arithmetic mean of the observed values over
  the x-range, dashed, of width 2, named by the device with \<^verbatim>\<open>(mean)\<close>; and, when the
  device has at least two observed values of the metric in the panel, the two lines at the
  mean plus and minus the sample standard deviation, dotted, unnamed and never in the
  legend.  All are of the device's colour; the raw series and the mean line are in the
  legend in panel 1 only.
\<close>

definition overlay_spec ::
  "string \<Rightarrow> nat \<Rightarrow> serial \<Rightarrow> serial indexed list \<Rightarrow> metric \<Rightarrow> trace list" where
  "overlay_spec col p s g m =
     (let ys = map (\<lambda>r. metric_value r m) g;
          obs = observed ys;
          mu = sum_list obs / real (length obs);
          sigma = sample_std obs;
          level = (if obs = [] then None else Some mu)
      in if g = [] then []
         else [\<lparr>t_row = p, t_x = map X g, t_y = ys, t_name = Some (Series s), t_mode = None,
                t_color = col, t_dash = None, t_width = None, t_showlegend = (p = 1)\<rparr>,
               \<lparr>t_row = p, t_x = x_range (map X g), t_y = [level, level],
                t_name = Some (Mean_of s), t_mode = Some ''lines'', t_color = col,
                t_dash = Some ''dash'', t_width = Some 2, t_showlegend = (p = 1)\<rparr>]
              @ (if 2 \<le> length obs
                 then [\<lparr>t_row = p, t_x = x_range (map X g),
                        t_y = [Some (mu + sigma), Some (mu + sigma)], t_name = None,
                        t_mode = Some ''lines'', t_color = col, t_dash = Some ''dot'',
                        t_width = None, t_showlegend = False\<rparr>,
                       \<lparr>t_row = p, t_x = x_range (map X g),
                        t_y = [Some (mu - sigma), Some (mu - sigma)], t_name = None,
                        t_mode = Some ''lines'', t_color = col, t_dash = Some ''dot'',
                        t_width = None, t_showlegend = False\<rparr>]
                 else []))"

text \<open>The traces of a panel as the spec words them: device after device, in the order of
  the selected serials.\<close>

definition panel_spec :: "serial list \<Rightarrow> metric \<Rightarrow> nat \<Rightarrow> serial indexed list \<Rightarrow> trace list" where
  "panel_spec serials m p row_df =
     concat (map (\<lambda>s. overlay_spec (color_of serials s) p s (filter (\<lambda>r. SerialID r = s) row_df) m)
               serials)"

text \<open>
  The stored table has the metric as a numeric column: every row holds a number or an
  empty field there.
\<close>

definition numeric_metric :: "'id indexed list \<Rightarrow> metric \<Rightarrow> bool" where
  "numeric_metric whole m =
     list_all (\<lambda>r. case metric_cell r m of Some (Num v) \<Rightarrow> True | Some Blank \<Rightarrow> True | _ \<Rightarrow> False) whole"

text \<open>\<^verbatim>\<open>df[df["SerialID"].isin(serials)]\<close>.\<close>

definition selected_rows :: "serial list \<Rightarrow> serial indexed list \<Rightarrow> serial indexed list" where
  "selected_rows serials df = filter (\<lambda>r. SerialID r \<in> set serials) df"

section \<open>Further examples\<close>


text \<open>
  A stand-in for Python's \<^verbatim>\<open>float\<close> on the strings of the examples: it reads
  \<^verbatim>\<open>123\<close> and raises on the others.
\<close>

definition example_float :: "string \<Rightarrow> real option" where
  "example_float s = (if s = ''123'' then Some 123 else None)"

text \<open>
  What \<^verbatim>\<open>load_csv\<close> stores for an upload of one device whose serial number is 123:
  the serial is the string \<^verbatim>\<open>123\<close>.
\<close>

definition numeric_serials :: "string indexed list" where
  "numeric_serials =
     [with_run_index (reading ''123'' 1 1 10) (Some 0), with_run_index (reading ''123'' 1 2 11) (Some 0)]"

section \<open>Run segmentation: properties\<close>

lemma length_group_diff: "length (group_diff prev df) = length df"
  by (induction df arbitrary: prev) (auto split: option.splits)

lemma length_group_cumsum: "length (group_cumsum acc kbs) = length kbs"
proof (induction kbs arbitrary: acc)
  case Nil
  then show ?case by simp
next
  case (Cons kb kbs)
  obtain k b where kb: "kb = (k, b)" by (cases kb)
  show ?case
    by (cases k) (simp_all add: kb Let_def Cons.IH)
qed

lemma group_cumsum_no_boundary:
  "\<forall>kb\<in>set kbs. \<not> snd kb \<Longrightarrow> group_cumsum acc kbs = map (\<lambda>kb. map_option acc (fst kb)) kbs"
proof (induction acc kbs rule: group_cumsum.induct)
  case (3 acc k b rest)
  then have "\<not> b" by simp
  then have "acc(k := acc k + (if b then 1 else 0)) = acc" by auto
  with 3 \<open>\<not> b\<close> show ?case by (simp add: Let_def)
qed auto

lemma same_group_order:
  fixes r q :: "('id::linorder, 'a) sample_scheme"
  assumes "sort_columns r \<le> sort_columns q" "group_key r = Some k" "group_key q = Some k"
    "X r = Some a" "X q = Some b"
  shows "a \<le> b"
  using assms
  by (auto simp: sort_columns_def group_key_def na_last_def split: option.splits)

lemma group_diff_sorted:
  assumes "sorted (map sort_columns df)"
    and "\<And>k a r b. prev k = Some (Some a) \<Longrightarrow> r \<in> set df \<Longrightarrow> group_key r = Some k \<Longrightarrow> X r = Some b \<Longrightarrow> a \<le> b"
  shows "\<forall>d\<in>set (group_diff prev df). 0 \<le> fillna 1 d"
  using assms
proof (induction df arbitrary: prev)
  case Nil
  then show ?case by simp
next
  case (Cons r rs)
  have srt: "sorted (map sort_columns rs)" and le: "\<And>q. q \<in> set rs \<Longrightarrow> sort_columns r \<le> sort_columns q"
    using Cons.prems(1) by auto
  show ?case
  proof (cases "group_key r")
    case None
    have "\<forall>d\<in>set (group_diff prev rs). 0 \<le> fillna 1 d"
    proof (rule Cons.IH[OF srt])
      fix k' a q b
      assume "prev k' = Some (Some a)" "q \<in> set rs" "group_key q = Some k'" "X q = Some b"
      then show "a \<le> b"
        using Cons.prems(2)[of k' a q b] by simp
    qed
    with None show ?thesis by (simp add: fillna_def)
  next
    case (Some k)
    have head: "0 \<le> fillna 1 (case prev k of None \<Rightarrow> None | Some p \<Rightarrow> minus_na (X r) p)"
    proof (cases "prev k")
      case None
      then show ?thesis by (simp add: fillna_def)
    next
      case (Some p)
      show ?thesis
      proof (cases p)
        case None
        with Some show ?thesis by (simp add: fillna_def minus_na_def split: option.splits)
      next
        case (Some a)
        show ?thesis
        proof (cases "X r")
          case None
          with \<open>prev k = Some p\<close> show ?thesis by (simp add: fillna_def minus_na_def)
        next
          case (Some b)
          have "a \<le> b"
            using Cons.prems(2)[of k a r b] \<open>prev k = Some p\<close> \<open>p = Some a\<close> \<open>group_key r = Some k\<close> Some
            by simp
          with Some \<open>prev k = Some p\<close> \<open>p = Some a\<close> show ?thesis
            by (simp add: fillna_def minus_na_def)
        qed
      qed
    qed
    have tail: "\<forall>d\<in>set (group_diff (prev(k \<mapsto> X r)) rs). 0 \<le> fillna 1 d"
    proof (rule Cons.IH[OF srt])
      fix k' a q b
      assume h: "(prev(k \<mapsto> X r)) k' = Some (Some a)" "q \<in> set rs" "group_key q = Some k'" "X q = Some b"
      show "a \<le> b"
      proof (cases "k' = k")
        case True
        with h(1) have "X r = Some a" by simp
        from same_group_order[OF le[OF h(2)] \<open>group_key r = Some k\<close> _ this h(4)] h(3) True
        show ?thesis by simp
      next
        case False
        with h(1) have "prev k' = Some (Some a)" by simp
        from Cons.prems(2)[OF this _ h(3) h(4)] h(2) show ?thesis by simp
      qed
    qed
    from Some head tail show ?thesis by simp
  qed
qed

lemma run_boundaries_sorted:
  "sorted (map sort_columns df) \<Longrightarrow> \<forall>b\<in>set (run_boundaries df). \<not> b"
  using group_diff_sorted[of df Map.empty]
  by (auto simp: run_boundaries_def)

lemma add_run_index_eq:
  "add_run_index df =
     map (\<lambda>r. with_run_index r (map_option (\<lambda>k. 0) (group_key r))) (sort_values df)"
proof -
  let ?s = "sort_values df"
  have srt: "sorted (map sort_columns ?s)" by (simp add: sort_values_def)
  let ?kbs = "zip (map group_key ?s) (run_boundaries ?s)"
  have len: "length (run_boundaries ?s) = length ?s"
    by (simp add: run_boundaries_def length_group_diff)
  have "\<forall>kb\<in>set ?kbs. \<not> snd kb"
    using run_boundaries_sorted[OF srt] by (auto dest: set_zip_rightD)
  then have "group_cumsum (\<lambda>k. 0) ?kbs = map (\<lambda>kb. map_option (\<lambda>k. 0) (fst kb)) ?kbs"
    by (rule group_cumsum_no_boundary)
  also have "\<dots> = map (map_option (\<lambda>k. 0)) (map fst ?kbs)"
    by simp
  also have "map fst ?kbs = map group_key ?s"
    using len by simp
  also have "map (map_option (\<lambda>k. 0)) (map group_key ?s)
               = map (\<lambda>r. map_option (\<lambda>k. 0) (group_key r)) ?s"
    by simp
  finally have "group_cumsum (\<lambda>k. 0) ?kbs = map (\<lambda>r. map_option (\<lambda>k. 0) (group_key r)) ?s" .
  then show ?thesis
    by (simp add: add_run_index_def Let_def zip_map2 map_zip_map2 zip_same_conv_map)
qed

lemma ensure_columns_restart_upload: "ensure_columns fmt restart_upload = Inr restart_example"
  by (simp add: ensure_columns_def restart_upload_def restart_example_def reading_def
      astype_Int64_def is_whole_def to_numeric_def cell_of_def normalized_def timestamp_of_def
      astype_str_def strip_def is_space_def)

text \<open>
  C1.  On the upload with sample counts 1, 2, 3, 1, 2 of one device and channel,
  \<^verbatim>\<open>add_run_index\<close> returns the rows in the order 1, 1, 2, 2, 3 of their sample counts and
  gives every row the run index 0: the sort on \<open>X\<close> that precedes the difference removes
  the decrease at the restart, so no run boundary is found.
\<close>

theorem add_run_index_restart_example:
  "map (\<lambda>r. (X r, RunIndex r)) (add_run_index restart_example) =
     [(Some 1, Some 0), (Some 1, Some 0), (Some 2, Some 0), (Some 2, Some 0), (Some 3, Some 0)]"
  by (simp add: add_run_index_def restart_example_def reading_def sort_values_def
      sort_columns_def na_last_def run_boundaries_def group_key_def with_run_index_def
      fillna_def minus_na_def)

section \<open>Latest-run filter: properties\<close>

lemma max_skipna_None: "max_skipna vs = None \<longleftrightarrow> (\<forall>v\<in>set vs. v = None)"
  by (induction vs rule: max_skipna.induct) (auto split: option.splits)

lemma max_skipna_upper: "max_skipna vs = Some m \<Longrightarrow> Some j \<in> set vs \<Longrightarrow> j \<le> m"
proof (induction vs arbitrary: m rule: max_skipna.induct)
  case 1
  then show ?case by simp
next
  case (2 vs)
  then show ?case by simp
next
  case (3 v vs)
  show ?case
  proof (cases "max_skipna vs")
    case None
    then have "\<forall>u\<in>set vs. u = None" by (simp add: max_skipna_None)
    with 3 None show ?thesis by auto
  next
    case (Some n)
    with 3 show ?thesis by (auto simp: max_def split: if_splits)
  qed
qed

lemma max_skipna_mem: "max_skipna vs = Some m \<Longrightarrow> Some m \<in> set vs"
proof (induction vs arbitrary: m rule: max_skipna.induct)
  case 1
  then show ?case by simp
next
  case (2 vs)
  then show ?case by simp
next
  case (3 v vs)
  then show ?case
    by (cases "max_skipna vs") (auto simp: max_def split: if_splits)
qed

lemma max_skipna_present: "Some i \<in> set vs \<Longrightarrow> \<exists>m. max_skipna vs = Some m"
  by (induction vs rule: max_skipna.induct) (auto split: option.splits)

lemma finite_present: "finite {j. Some j \<in> set vs}"
proof -
  have "{j. Some j \<in> set vs} = Some -` set vs" by auto
  then show ?thesis by (simp add: finite_vimageI)
qed

lemma max_skipna_Max:
  assumes "max_skipna vs = Some m"
  shows "m = Max {j. Some j \<in> set vs}"
proof -
  have "Max {j. Some j \<in> set vs} = m"
  proof (rule Max_eqI)
    show "finite {j. Some j \<in> set vs}" by (rule finite_present)
    show "\<And>y. y \<in> {j. Some j \<in> set vs} \<Longrightarrow> y \<le> m"
      using max_skipna_upper[OF assms] by simp
    show "m \<in> {j. Some j \<in> set vs}"
      using max_skipna_mem[OF assms] by simp
  qed
  then show ?thesis by simp
qed

lemma max_skipna_const: "vs \<noteq> [] \<Longrightarrow> \<forall>v\<in>set vs. v = Some m \<Longrightarrow> max_skipna vs = Some m"
proof -
  assume ne: "vs \<noteq> []" and all: "\<forall>v\<in>set vs. v = Some m"
  have hd: "hd vs \<in> set vs" using ne by simp
  with all have "hd vs = Some m" by blast
  with hd have "Some m \<in> set vs" by simp
  from max_skipna_present[OF this] obtain n where n: "max_skipna vs = Some n" by auto
  from max_skipna_mem[OF n] all have "n = m" by auto
  with n show ?thesis by simp
qed

lemma run_index_in_group:
  "r \<in> set df \<Longrightarrow> group_key r = Some k \<Longrightarrow>
     RunIndex r \<in> set (map RunIndex (filter (\<lambda>q. group_key q = Some k) df))"
  by simp

lemma run_indices_conv:
  "run_indices df k = {j. Some j \<in> set (map RunIndex (filter (\<lambda>q. group_key q = Some k) df))}"
  by (auto simp: run_indices_def image_iff)

lemma kept_iff:
  "eq_na (RunIndex r) (latest df r) \<longleftrightarrow>
     (\<exists>k m. group_key r = Some k \<and> RunIndex r = Some m
        \<and> max_skipna (map RunIndex (filter (\<lambda>q. group_key q = Some k) df)) = Some m)"
  by (auto simp: eq_na_def latest_def split: option.splits)

lemma latest_Max:
  assumes "r \<in> set df" "group_key r = Some k" "RunIndex r = Some i"
  shows "latest df r = Some (Max (run_indices df k))"
proof -
  let ?vs = "map RunIndex (filter (\<lambda>q. group_key q = Some k) df)"
  have "Some i \<in> set ?vs"
    using run_index_in_group[OF assms(1,2)] assms(3) by simp
  from max_skipna_present[OF this] obtain m where m: "max_skipna ?vs = Some m" by auto
  from max_skipna_Max[OF m] m assms(2) show ?thesis
    by (simp add: latest_def run_indices_conv)
qed

lemma keep_latest_run_only_filter:
  "keep_latest_run_only df =
     filter (\<lambda>r. \<exists>k. group_key r = Some k \<and> RunIndex r = Some (Max (run_indices df k))) df"
  unfolding keep_latest_run_only_def
proof (rule filter_cong[OF refl])
  fix r assume r: "r \<in> set df"
  show "eq_na (RunIndex r) (latest df r) \<longleftrightarrow>
          (\<exists>k. group_key r = Some k \<and> RunIndex r = Some (Max (run_indices df k)))"
  proof (cases "group_key r")
    case None
    then show ?thesis by (simp add: eq_na_def latest_def split: option.splits)
  next
    case (Some k)
    show ?thesis
    proof (cases "RunIndex r")
      case None
      then show ?thesis by (simp add: eq_na_def)
    next
      case (Some i)
      from latest_Max[OF r \<open>group_key r = Some k\<close> Some] Some \<open>group_key r = Some k\<close>
      show ?thesis by (auto simp: eq_na_def)
    qed
  qed
qed

lemma group_survives:
  assumes "r \<in> set df" "group_key r = Some k"
    and "\<forall>r\<in>set df. Channel r \<noteq> None \<longrightarrow> RunIndex r \<noteq> None"
  shows "\<exists>q\<in>set (keep_latest_run_only df). group_key q = Some k"
proof -
  have "Channel r \<noteq> None" using assms(2) by (auto simp: group_key_def split: option.splits)
  then obtain i where i: "RunIndex r = Some i" using assms(1,3) by auto
  let ?vs = "map RunIndex (filter (\<lambda>q. group_key q = Some k) df)"
  have "Some i \<in> set ?vs" using run_index_in_group[OF assms(1,2)] i by simp
  from max_skipna_present[OF this] obtain m where m: "max_skipna ?vs = Some m" by auto
  from max_skipna_mem[OF m]
  obtain q where q: "q \<in> set df" "group_key q = Some k" "RunIndex q = Some m" by auto
  then have "eq_na (RunIndex q) (latest df q)" using m by (simp add: eq_na_def latest_def)
  with q show ?thesis by (auto simp: keep_latest_run_only_def)
qed

lemma keep_latest_idem:
  "keep_latest_run_only (keep_latest_run_only df) = keep_latest_run_only df"
proof -
  let ?out = "keep_latest_run_only df"
  have "\<forall>r\<in>set ?out. eq_na (RunIndex r) (latest ?out r)"
  proof
    fix r assume r: "r \<in> set ?out"
    then have rdf: "r \<in> set df" and kept: "eq_na (RunIndex r) (latest df r)"
      by (auto simp: keep_latest_run_only_def)
    from kept obtain k m where k: "group_key r = Some k" and ri: "RunIndex r = Some m"
      and mx: "max_skipna (map RunIndex (filter (\<lambda>q. group_key q = Some k) df)) = Some m"
      by (auto simp: kept_iff)
    let ?vs = "map RunIndex (filter (\<lambda>q. group_key q = Some k) ?out)"
    have ne: "?vs \<noteq> []" using r k by (auto simp: filter_empty_conv)
    have "\<forall>v\<in>set ?vs. v = Some m"
    proof
      fix v assume "v \<in> set ?vs"
      then obtain q where q: "q \<in> set ?out" "group_key q = Some k" "v = RunIndex q" by auto
      then have "eq_na (RunIndex q) (latest df q)" by (simp add: keep_latest_run_only_def)
      with q(2) mx have "RunIndex q = Some m" by (auto simp: kept_iff)
      with q(3) show "v = Some m" by simp
    qed
    from max_skipna_const[OF ne this] k ri show "eq_na (RunIndex r) (latest ?out r)"
      by (simp add: eq_na_def latest_def)
  qed
  then have "filter (\<lambda>r. eq_na (RunIndex r) (latest ?out r)) ?out = ?out"
    by (simp add: filter_id_conv)
  then show ?thesis
    by (subst (1) keep_latest_run_only_def) simp
qed

lemma set_add_run_index:
  "set (add_run_index df) =
     (\<lambda>r. with_run_index r (map_option (\<lambda>k. 0) (group_key r))) ` set df"
  by (simp add: add_run_index_eq sort_values_def)

lemma group_key_with_run_index [simp]: "group_key (with_run_index r i) = group_key r"
  by (simp add: group_key_def with_run_index_def split: option.splits)

lemma add_run_index_indexed:
  "\<forall>q\<in>set (add_run_index df). Channel q \<noteq> None \<longrightarrow> RunIndex q \<noteq> None"
  by (auto simp: set_add_run_index with_run_index_def group_key_def split: option.splits)


lemma two_runs_latest:
  "keep_latest_run_only two_runs =
     [with_run_index (reading ''A'' 1 1 13) (Some 1), with_run_index (reading ''A'' 1 2 14) (Some 1),
      with_run_index (reading ''B'' 2 7 15) (Some 0)]"
  by (simp add: keep_latest_run_only_def latest_def eq_na_def group_key_def two_runs_def
      with_run_index_def reading_def)

text \<open>
  C2.  On a table in which every row with a channel carries a run index (as every table
  returned by \<^verbatim>\<open>add_run_index\<close> does, lemma \<open>add_run_index_indexed\<close>),
  \<^verbatim>\<open>keep_latest_run_only\<close> returns exactly the rows whose run index is the maximum of the
  run indices of their (device, channel) group, in their order, and every group of the
  input has a row in the output.  A group is a group of pandas' \<^verbatim>\<open>groupby\<close>: rows
  without a channel belong to none.
\<close>

theorem keep_latest_run_only_latest:
  assumes "\<forall>r\<in>set df. Channel r \<noteq> None \<longrightarrow> RunIndex r \<noteq> None"
  shows "keep_latest_run_only df =
           filter (\<lambda>r. \<exists>k. group_key r = Some k \<and> RunIndex r = Some (Max (run_indices df k))) df
         \<and> (\<forall>k. (\<exists>r\<in>set df. group_key r = Some k)
                \<longrightarrow> (\<exists>q\<in>set (keep_latest_run_only df). group_key q = Some k))"
proof (intro conjI allI impI)
  show "keep_latest_run_only df =
          filter (\<lambda>r. \<exists>k. group_key r = Some k \<and> RunIndex r = Some (Max (run_indices df k))) df"
    by (rule keep_latest_run_only_filter)
next
  fix k
  assume "\<exists>r\<in>set df. group_key r = Some k"
  then obtain r where "r \<in> set df" "group_key r = Some k" by blast
  then show "\<exists>q\<in>set (keep_latest_run_only df). group_key q = Some k"
    using assms by (rule group_survives)
qed

theorem keep_latest_run_only_latest_witness:
  "filter (\<lambda>r. \<exists>k. group_key r = Some k \<and> RunIndex r = Some (Max (run_indices two_runs k))) two_runs
     = [with_run_index (reading ''A'' 1 1 13) (Some 1), with_run_index (reading ''A'' 1 2 14) (Some 1),
        with_run_index (reading ''B'' 2 7 15) (Some 0)]
   \<and> map group_key (keep_latest_run_only two_runs) = [Some (''A'', 1), Some (''A'', 1), Some (''B'', 2)]"
proof -
  have h: "\<forall>r\<in>set two_runs. Channel r \<noteq> None \<longrightarrow> RunIndex r \<noteq> None"
    by (simp add: two_runs_def with_run_index_def reading_def)
  have s: "keep_latest_run_only two_runs =
             filter (\<lambda>r. \<exists>k. group_key r = Some k \<and> RunIndex r = Some (Max (run_indices two_runs k)))
               two_runs"
    using keep_latest_run_only_latest[OF h] by (rule conjunct1)
  have g: "map group_key (keep_latest_run_only two_runs) = [Some (''A'', 1), Some (''A'', 1), Some (''B'', 2)]"
    by (simp add: two_runs_latest group_key_def with_run_index_def reading_def)
  show ?thesis
    using s two_runs_latest g by simp
qed

text \<open>
  C6.  Applying \<^verbatim>\<open>keep_latest_run_only\<close> to its own result changes nothing, for every
  table.
\<close>

theorem keep_latest_run_only_idempotent:
  "keep_latest_run_only (keep_latest_run_only df) = keep_latest_run_only df"
  by (rule keep_latest_idem)

theorem keep_latest_run_only_idempotent_witness:
  "keep_latest_run_only (keep_latest_run_only two_runs) =
     [with_run_index (reading ''A'' 1 1 13) (Some 1), with_run_index (reading ''A'' 1 2 14) (Some 1),
      with_run_index (reading ''B'' 2 7 15) (Some 0)]"
  using keep_latest_run_only_idempotent[of two_runs] two_runs_latest by simp



section \<open>Panels: properties\<close>

text \<open>
  C9, as stated, fails: a row whose sample count is unreadable has a missing \<open>X\<close>, is
  kept by the latest-run filter, and is in neither panel, since both comparisons with the
  threshold are false at a missing value.
\<close>

theorem panels_miss_row_without_count:
  "keep_latest_run_only (add_run_index [unreadable_count ''A'' 1 10])
     = [with_run_index (unreadable_count ''A'' 1 10) (Some 0)]
   \<and> df_top [with_run_index (unreadable_count ''A'' 1 10) (Some 0)] 100 = []
   \<and> df_bot [with_run_index (unreadable_count ''A'' 1 10) (Some 0)] 100 = []"
  by (simp add: add_run_index_def unreadable_count_def
        sort_values_def sort_columns_def na_last_def run_boundaries_def group_key_def
        with_run_index_def fillna_def minus_na_def keep_latest_run_only_def latest_def eq_na_def
        df_top_def df_bot_def le_na_def gt_na_def)

text \<open>
  C9, amended.  For every table and integer threshold, a row whose \<open>X\<close> is present is in
  the top panel exactly when \<open>X\<close> is at most the threshold, in the bottom panel exactly
  when \<open>X\<close> exceeds it, and in exactly one of the two; a row whose \<open>X\<close> is missing is in
  neither.  The two panels together hold each row with a present \<open>X\<close> once.
\<close>

theorem panel_partition:
  "(\<forall>r\<in>set df.
      (case X r of
         None \<Rightarrow> r \<notin> set (df_top df n) \<and> r \<notin> set (df_bot df n)
       | Some v \<Rightarrow> (r \<in> set (df_top df n) \<longleftrightarrow> v \<le> of_int n)
                  \<and> (r \<in> set (df_bot df n) \<longleftrightarrow> of_int n < v)
                  \<and> (r \<in> set (df_top df n) \<longleftrightarrow> r \<notin> set (df_bot df n))))
   \<and> mset (df_top df n) + mset (df_bot df n) = mset (filter (\<lambda>r. X r \<noteq> None) df)"
proof
  show "\<forall>r\<in>set df.
      (case X r of
         None \<Rightarrow> r \<notin> set (df_top df n) \<and> r \<notin> set (df_bot df n)
       | Some v \<Rightarrow> (r \<in> set (df_top df n) \<longleftrightarrow> v \<le> of_int n)
                  \<and> (r \<in> set (df_bot df n) \<longleftrightarrow> of_int n < v)
                  \<and> (r \<in> set (df_top df n) \<longleftrightarrow> r \<notin> set (df_bot df n)))"
    by (auto simp: df_top_def df_bot_def le_na_def gt_na_def split: option.splits)
  show "mset (df_top df n) + mset (df_bot df n) = mset (filter (\<lambda>r. X r \<noteq> None) df)"
    unfolding df_top_def df_bot_def
    by (induction df) (auto simp: le_na_def gt_na_def split: option.splits)
qed

theorem panel_partition_witness:
  "mset (df_top mixed_counts 2) + mset (df_bot mixed_counts 2)
     = mset (filter (\<lambda>r. X r \<noteq> None) mixed_counts)
   \<and> map X (df_top mixed_counts 2) = [Some 1, Some 2]
   \<and> map X (df_bot mixed_counts 2) = [Some 3]"
proof -
  have "map X (df_top mixed_counts 2) = [Some 1, Some 2]"
    and "map X (df_bot mixed_counts 2) = [Some 3]"
    by (simp_all add: mixed_counts_def df_top_def df_bot_def le_na_def gt_na_def
        with_run_index_def reading_def unreadable_count_def)
  then show ?thesis
    using panel_partition[of mixed_counts 2] by simp
qed

section \<open>Schema normalisation and upload: properties\<close>

text \<open>
  C5, as stated, fails: a table with the \<^verbatim>\<open>SerialNumber\<close> column and no
  \<^verbatim>\<open>Channel\<close> column is not normalised; the read \<^verbatim>\<open>df["Channel"]\<close> raises
  \<^verbatim>\<open>KeyError\<close>.
\<close>

theorem ensure_columns_no_channel:
  "''SerialNumber'' \<in> set (columns no_channel_upload)
   \<and> ensure_columns example_fmt no_channel_upload = Inl (KeyError ''Channel'')"
  by (simp add: ensure_columns_def no_channel_upload_def)

lemma length_astype_Int64: "astype_Int64 vs = Inr out \<Longrightarrow> length out = length vs"
  by (auto simp: astype_Int64_def split: if_splits)

lemma is_whole_to_numeric:
  "is_whole (to_numeric c) \<longleftrightarrow>
     (\<forall>v. c = Num v \<longrightarrow> (\<exists>k::int. v = of_int k \<and> - (2 ^ 63) \<le> k \<and> k < 2 ^ 63))"
proof (cases c)
  case (Num v)
  show ?thesis
  proof
    assume "is_whole (to_numeric c)"
    then have "of_int \<lfloor>v\<rfloor> = v \<and> - (2 ^ 63) \<le> \<lfloor>v\<rfloor> \<and> \<lfloor>v\<rfloor> < 2 ^ 63"
      by (simp add: Num is_whole_def to_numeric_def)
    then show "\<forall>v. c = Num v \<longrightarrow> (\<exists>k::int. v = of_int k \<and> - (2 ^ 63) \<le> k \<and> k < 2 ^ 63)"
      using Num by (metis cell.inject(1))
  next
    assume "\<forall>v. c = Num v \<longrightarrow> (\<exists>k::int. v = of_int k \<and> - (2 ^ 63) \<le> k \<and> k < 2 ^ 63)"
    then obtain k :: int where "v = of_int k" "- (2 ^ 63) \<le> k" "k < 2 ^ 63"
      using Num by blast
    then show "is_whole (to_numeric c)"
      by (simp add: Num is_whole_def to_numeric_def)
  qed
qed (simp_all add: is_whole_def to_numeric_def)

text \<open>
  C5, amended.  \<^verbatim>\<open>ensure_columns\<close> raises the validation error (\<^verbatim>\<open>ValueError\<close>) if
  and only if the \<^verbatim>\<open>SerialNumber\<close> column is absent.  It succeeds only on a table that
  has the columns \<^verbatim>\<open>SerialNumber\<close>, \<^verbatim>\<open>Channel\<close> and \<^verbatim>\<open>SampleCount\<close>.  On such a
  table whose channel fields, where they are numbers, are whole numbers in the range of a
  signed 64-bit integer, it succeeds with one row per input row: a channel field that is a
  number gives that channel, one that is not a number gives a missing channel; a sample
  count that is a number gives that \<open>X\<close>, one that is not a number a missing \<open>X\<close>; neither
  is an error.
\<close>

theorem ensure_columns_outcome:
  "((\<exists>msg. ensure_columns fmt df = Inl (ValueError msg)) \<longleftrightarrow> ''SerialNumber'' \<notin> set (columns df))
   \<and> ((\<exists>out. ensure_columns fmt df = Inr out) \<longrightarrow>
         ''SerialNumber'' \<in> set (columns df) \<and> ''Channel'' \<in> set (columns df)
         \<and> ''SampleCount'' \<in> set (columns df))
   \<and> (''SerialNumber'' \<in> set (columns df) \<and> ''Channel'' \<in> set (columns df)
        \<and> ''SampleCount'' \<in> set (columns df)
        \<and> (\<forall>rec\<in>set (body df). \<forall>v. cell_of df rec ''Channel'' = Num v \<longrightarrow>
              (\<exists>k::int. v = of_int k \<and> - (2 ^ 63) \<le> k \<and> k < 2 ^ 63))
      \<longrightarrow> (\<exists>out. ensure_columns fmt df = Inr out \<and> length out = length (body df)
             \<and> (\<forall>i<length out.
                   (case cell_of df (body df ! i) ''Channel'' of
                      Num v \<Rightarrow> Channel (out ! i) = Some \<lfloor>v\<rfloor>
                    | Text s \<Rightarrow> Channel (out ! i) = None
                    | Blank \<Rightarrow> Channel (out ! i) = None)
                   \<and> (case cell_of df (body df ! i) ''SampleCount'' of
                        Num v \<Rightarrow> X (out ! i) = Some v
                      | Text s \<Rightarrow> X (out ! i) = None
                      | Blank \<Rightarrow> X (out ! i) = None))))"
proof (intro conjI impI)
  show "(\<exists>msg. ensure_columns fmt df = Inl (ValueError msg)) \<longleftrightarrow> ''SerialNumber'' \<notin> set (columns df)"
    by (auto simp: ensure_columns_def astype_Int64_def split: if_splits sum.splits)
next
  assume "\<exists>out. ensure_columns fmt df = Inr out"
  then show "''SerialNumber'' \<in> set (columns df)" "''Channel'' \<in> set (columns df)"
    "''SampleCount'' \<in> set (columns df)"
    by (auto simp: ensure_columns_def split: if_splits sum.splits)
next
  assume a: "''SerialNumber'' \<in> set (columns df) \<and> ''Channel'' \<in> set (columns df)
        \<and> ''SampleCount'' \<in> set (columns df)
        \<and> (\<forall>rec\<in>set (body df). \<forall>v. cell_of df rec ''Channel'' = Num v \<longrightarrow>
              (\<exists>k::int. v = of_int k \<and> - (2 ^ 63) \<le> k \<and> k < 2 ^ 63))"
  let ?ch = "map (\<lambda>rec. to_numeric (cell_of df rec ''Channel'')) (body df)"
  have w: "list_all is_whole ?ch"
    using a by (simp add: list_all_iff is_whole_to_numeric)
  then have c: "astype_Int64 ?ch = Inr (map (map_option floor) ?ch)"
    by (simp add: astype_Int64_def)
  let ?out = "map2 (normalized fmt df) (body df) (map (map_option floor) ?ch)"
  have e: "ensure_columns fmt df = Inr ?out"
    using a c by (simp add: ensure_columns_def)
  have l: "length ?out = length (body df)" by simp
  have "\<forall>i<length ?out.
          (case cell_of df (body df ! i) ''Channel'' of
                      Num v \<Rightarrow> Channel (?out ! i) = Some \<lfloor>v\<rfloor>
                    | Text s \<Rightarrow> Channel (?out ! i) = None
                    | Blank \<Rightarrow> Channel (?out ! i) = None)
          \<and> (case cell_of df (body df ! i) ''SampleCount'' of
                        Num v \<Rightarrow> X (?out ! i) = Some v
                      | Text s \<Rightarrow> X (?out ! i) = None
                      | Blank \<Rightarrow> X (?out ! i) = None)"
    by (simp add: normalized_def to_numeric_def split: cell.splits)
  with e l show "\<exists>out. ensure_columns fmt df = Inr out \<and> length out = length (body df)
             \<and> (\<forall>i<length out.
                   (case cell_of df (body df ! i) ''Channel'' of
                      Num v \<Rightarrow> Channel (out ! i) = Some \<lfloor>v\<rfloor>
                    | Text s \<Rightarrow> Channel (out ! i) = None
                    | Blank \<Rightarrow> Channel (out ! i) = None)
                   \<and> (case cell_of df (body df ! i) ''SampleCount'' of
                        Num v \<Rightarrow> X (out ! i) = Some v
                      | Text s \<Rightarrow> X (out ! i) = None
                      | Blank \<Rightarrow> X (out ! i) = None))"
    by blast
qed

lemma ensure_columns_unreadable_upload:
  "ensure_columns example_fmt unreadable_upload = Inr [reading ''A'' 1 1 10,
      \<lparr>raw = [(''SerialNumber'', Text '' A ''), (''Channel'', Text ''x''),
             (''SampleCount'', Text ''n/a''), (''RAW'', Blank)],
      SerialID = ''A'', Channel = None, SampleCount = None, X = None, Timestamp = NaT\<rparr>]"
  by (simp add: ensure_columns_def unreadable_upload_def reading_def
      astype_Int64_def is_whole_def to_numeric_def cell_of_def normalized_def timestamp_of_def
      astype_str_def strip_def is_space_def)

theorem ensure_columns_outcome_witness:
  "(\<nexists>msg. ensure_columns example_fmt unreadable_upload = Inl (ValueError msg))
   \<and> (\<exists>out. ensure_columns example_fmt unreadable_upload = Inr out \<and> length out = 2)
   \<and> map Channel (case ensure_columns example_fmt unreadable_upload of Inl e \<Rightarrow> [] | Inr out \<Rightarrow> out)
       = [Some 1, None]"
proof -
  have c: "''SerialNumber'' \<in> set (columns unreadable_upload)"
    "''Channel'' \<in> set (columns unreadable_upload)"
    "''SampleCount'' \<in> set (columns unreadable_upload)"
    by (simp_all add: unreadable_upload_def)
  have w: "\<forall>rec\<in>set (body unreadable_upload). \<forall>v. cell_of unreadable_upload rec ''Channel'' = Num v \<longrightarrow>
              (\<exists>k::int. v = of_int k \<and> - (2 ^ 63) \<le> k \<and> k < 2 ^ 63)"
  proof -
    have "(1::real) = of_int 1 \<and> - (2 ^ 63) \<le> (1::int) \<and> (1::int) < 2 ^ 63" by simp
    then have "\<exists>k::int. (1::real) = of_int k \<and> - (2 ^ 63) \<le> k \<and> k < 2 ^ 63" by blast
    then show ?thesis
      by (simp add: unreadable_upload_def cell_of_def)
  qed
  note t = ensure_columns_outcome[of example_fmt unreadable_upload]
  have 1: "\<nexists>msg. ensure_columns example_fmt unreadable_upload = Inl (ValueError msg)"
    using t c by blast
  have 2: "\<exists>out. ensure_columns example_fmt unreadable_upload = Inr out \<and> length out = 2"
  proof -
    from t c w obtain out where "ensure_columns example_fmt unreadable_upload = Inr out"
      "length out = length (body unreadable_upload)" by blast
    then show ?thesis by (auto simp: unreadable_upload_def)
  qed
  have 3: "map Channel (case ensure_columns example_fmt unreadable_upload of Inl e \<Rightarrow> [] | Inr out \<Rightarrow> out)
       = [Some 1, None]"
    by (simp add: ensure_columns_unreadable_upload reading_def)
  from 1 2 3 show ?thesis by blast
qed

text \<open>
  What the amended claim leaves out: a channel field holding a number that is not whole,
  or one outside the range of a signed 64-bit integer, is not coerced to a missing value;
  the cast to \<^verbatim>\<open>Int64\<close> raises.
\<close>

lemma ensure_columns_fractional_channel:
  "ensure_columns example_fmt fractional_channel_upload
     = Inl (TypeError ''cannot safely cast non-equivalent float64 to int64'')"
  by (simp add: ensure_columns_def fractional_channel_upload_def astype_Int64_def is_whole_def
      to_numeric_def cell_of_def)

text \<open>
  C7.  When the decoded upload has no \<^verbatim>\<open>SerialNumber\<close> column, \<^verbatim>\<open>load_csv\<close> raises
  the validation error and writes nothing to the file, and the dashboard is left as it
  was: file, stored dataset, selector options and every other component.
\<close>

theorem upload_without_serial_rejected:
  assumes "parse contents = Inr df" and "''SerialNumber'' \<notin> set (columns df)"
  shows "load_csv parse fmt contents file = (file, Inl (ValueError ''Missing SerialNumber column''))
         \<and> on_upload parse fmt to_float contents st = st"
  using assms by (simp add: load_csv_def on_upload_def ensure_columns_def)

theorem upload_without_serial_rejected_witness:
  "load_csv (\<lambda>c. Inr no_serial_upload) example_fmt ''data:text/csv;base64,'' (Some two_runs)
     = (Some two_runs, Inl (ValueError ''Missing SerialNumber column''))
   \<and> on_upload (\<lambda>c. Inr no_serial_upload) example_fmt example_float ''data:text/csv;base64,''
         running_app
       = running_app"
proof -
  have "''SerialNumber'' \<notin> set (columns no_serial_upload)"
    by (simp add: no_serial_upload_def)
  then show ?thesis
    by (intro upload_without_serial_rejected) simp_all
qed

lemma ensure_columns_channel_out_of_range:
  "ensure_columns example_fmt huge_channel_upload
     = Inl (TypeError ''cannot safely cast non-equivalent float64 to int64'')"
  by (simp add: ensure_columns_def huge_channel_upload_def astype_Int64_def is_whole_def
      to_numeric_def cell_of_def)

section \<open>Summary table\<close>

lemma stats_table_refresh_plot: "stats_table (refresh_plot to_float st) = stats_table st"
  by (simp add: refresh_plot_def split: sum.splits prod.splits)

lemma stats_table_handle: "stats_table (handle parse fmt to_float e st) = stats_table st"
  by (cases e) (simp_all add: stats_table_refresh_plot on_upload_def split: sum.splits prod.splits)

lemma stats_table_fold:
  "stats_table (fold (handle parse fmt to_float) events st) = stats_table st"
  by (induction events arbitrary: st) (simp_all add: stats_table_handle)

text \<open>
  C3.  No callback has the table \<^verbatim>\<open>stats-table\<close> as an output: whatever is uploaded
  and selected, in any order, the table keeps the rows of the layout, which are none.
\<close>

theorem stats_table_never_filled:
  "stats_table (fold (handle parse fmt to_float) events (layout f)) = []"
  by (simp add: stats_table_fold layout_def)

theorem stats_table_never_filled_witness:
  "stats_table
     (fold (handle (\<lambda>c. Inr restart_upload) example_fmt example_float)
        [Upload ''data:text/csv;base64,'', Set_top_n 2] (layout None)) = []"
  by (rule stats_table_never_filled)

section \<open>Plot: properties\<close>

lemma x_range_code: "x_range xs = [min_skipna xs, max_x xs]"
  by (cases "observed xs")
     (simp_all add: x_range_def min_skipna_def max_x_def Min.set_eq_fold Max.set_eq_fold
        del: set_simps)

lemma overlay_eq_spec:
  "g \<noteq> [] \<Longrightarrow> overlay col p s g (map (\<lambda>r. metric_value r m) g) = overlay_spec col p s g m"
  by (simp add: overlay_def overlay_spec_def std_def mean_def Let_def plus_na_def minus_na_def
      sample_std_def main_trace_def mean_trace_def sigma_trace_def x_range_code)

lemma metric_column_Inr:
  assumes "\<forall>r\<in>set g. metric_cell r m \<noteq> None" "\<not> list_ex (\<lambda>r. is_text (metric_cell r m)) whole"
  shows "metric_column whole g m = Inr (map (\<lambda>r. metric_value r m) g)"
  using assms by (simp add: metric_column_def list_ex_iff)

lemma dom_color_fold:
  "dom (fold (\<lambda>(i, s) cm. cm(s \<mapsto> f i)) (enumerate k ss) cm0) = dom cm0 \<union> set ss"
  by (induction ss arbitrary: k cm0) auto

lemma color_map_defined: "s \<in> set serials \<Longrightarrow> \<exists>c. color_map serials s = Some c"
proof -
  assume "s \<in> set serials"
  then have "s \<in> dom (color_map serials)"
    unfolding color_map_def by (simp add: dom_color_fold)
  then show ?thesis by auto
qed

lemma serial_loop_spec:
  assumes "\<forall>s\<in>set ss. cm s = Some (col s)"
    and "\<forall>r\<in>set row_df. metric_cell r m \<noteq> None"
    and "\<not> list_ex (\<lambda>r. is_text (metric_cell r m)) whole"
  shows "serial_loop whole m cm row_df p ss =
           Inr (concat (map (\<lambda>s. overlay_spec (col s) p s (filter (\<lambda>r. SerialID r = s) row_df) m) ss))"
  using assms(1)
proof (induction ss)
  case Nil
  then show ?case by simp
next
  case (Cons s ss)
  let ?g = "filter (\<lambda>r. SerialID r = s) row_df"
  have IH: "serial_loop whole m cm row_df p ss =
           Inr (concat (map (\<lambda>s. overlay_spec (col s) p s (filter (\<lambda>r. SerialID r = s) row_df) m) ss))"
    using Cons by simp
  show ?case
  proof (cases "?g = []")
    case True
    then show ?thesis using IH by (simp add: overlay_spec_def)
  next
    case False
    have mc: "metric_column whole ?g m = Inr (map (\<lambda>r. metric_value r m) ?g)"
      by (rule metric_column_Inr) (use assms(2,3) in auto)
    have c: "cm s = Some (col s)" using Cons.prems by simp
    show ?thesis
      using False mc c IH overlay_eq_spec[OF False, of "col s" p s m]
      by (simp add: Let_def)
  qed
qed

lemma numeric_metricD:
  assumes "numeric_metric whole m"
  shows "\<forall>r\<in>set whole. metric_cell r m \<noteq> None" and "\<not> list_ex (\<lambda>r. is_text (metric_cell r m)) whole"
  using assms
  by (auto simp: numeric_metric_def list_all_iff list_ex_iff is_text_def split: option.splits cell.splits)

lemma build_figure_spec:
  assumes "numeric_metric whole m" and "set df \<subseteq> set whole"
  shows "build_figure whole df m serials n =
           Inr (Subplots [Title_upto m 1 n, Title_from m (n + 1)]
                  (panel_spec serials m 1 (df_top (selected_rows serials df) n)
                   @ panel_spec serials m 2 (df_bot (selected_rows serials df) n)))"
proof -
  let ?sel = "selected_rows serials df"
  have col: "\<forall>s\<in>set serials. color_map serials s = Some (color_of serials s)"
    using color_map_defined by (fastforce simp: color_of_def)
  have sub: "set ?sel \<subseteq> set whole" using assms(2) by (auto simp: selected_rows_def)
  have t: "\<forall>r\<in>set (df_top ?sel n). metric_cell r m \<noteq> None"
    using numeric_metricD(1)[OF assms(1)] sub by (auto simp: df_top_def)
  have b: "\<forall>r\<in>set (df_bot ?sel n). metric_cell r m \<noteq> None"
    using numeric_metricD(1)[OF assms(1)] sub by (auto simp: df_bot_def)
  note nt = numeric_metricD(2)[OF assms(1)]
  have 1: "serial_loop whole m (color_map serials) (df_top ?sel n) 1 serials =
             Inr (panel_spec serials m 1 (df_top ?sel n))"
    unfolding panel_spec_def by (rule serial_loop_spec[OF col t nt])
  have 2: "serial_loop whole m (color_map serials) (df_bot ?sel n) 2 serials =
             Inr (panel_spec serials m 2 (df_bot ?sel n))"
    unfolding panel_spec_def by (rule serial_loop_spec[OF col b nt])
  show ?thesis
    using 1 2 by (simp add: build_figure_def Let_def selected_rows_def)
qed






lemma metric_cell_with_serial [simp]: "metric_cell (with_serial r v) m = metric_cell r m"
  by (simp add: metric_cell_def with_serial_def)


lemma metric_name_HGO: "metric_name HGO = ''HGO''" by simp









text \<open>
  The same at the callback: with no serial requested, \<^verbatim>\<open>update_plot\<close> returns the figure
  of all serials of the latest-run-filtered table read back from the store.
\<close>

lemma numeric_metric_read_json:
  "numeric_metric stored m \<Longrightarrow> numeric_metric (read_json to_float stored) m"
  by (simp add: numeric_metric_def read_json_def list_all_iff)

lemma update_plot_all_serials:
  assumes "numeric_metric stored m" and "requested cs = []"
  shows "update_plot to_float (Some stored) m cs n =
           (let df = keep_latest_run_only (read_json to_float stored);
                serials = sort_key serial_key (remdups (map SerialID df))
            in Inr (Subplots [Title_upto m 1 n, Title_from m (n + 1)]
                      (panel_spec serials m 1 (df_top (selected_rows serials df) n)
                       @ panel_spec serials m 2 (df_bot (selected_rows serials df) n)),
                    All_serials, No_warning))"
proof -
  let ?whole = "read_json to_float stored"
  have s: "set (keep_latest_run_only ?whole) \<subseteq> set ?whole"
    by (auto simp: keep_latest_run_only_def)
  show ?thesis
    using assms(2)
    by (simp add: update_plot_def Let_def
        build_figure_spec[OF numeric_metric_read_json[OF assms(1)] s])
qed

lemma read_json_numeric:
  assumes "list_all (\<lambda>r. to_float (SerialID r) \<noteq> None) stored"
  shows "\<forall>r\<in>set (read_json to_float stored). \<exists>v. SerialID r = Number v"
  using assms
  by (auto simp: read_json_def list_all_iff with_serial_def as_number_def split: option.splits)

text \<open>
  C4.  \<^verbatim>\<open>update_plot\<close> compares the selected strings with the serials of the table it
  reads back from the store.  When every serial of the stored table reads as a number,
  reading back turns the column into numbers, no selected string equals a serial, and every
  non-empty selection is answered with the empty figure, the label for no valid selection
  and a warning that lists every selected serial as missing, the serials of the dataset
  included: on the upload of a device with the serial number 123, the selector offers
  \<^verbatim>\<open>123\<close> and selecting it reports no data for it.
\<close>

theorem numeric_serials_all_missing:
  assumes "list_all (\<lambda>r. to_float (SerialID r) \<noteq> None) stored" and "requested cs \<noteq> []"
  shows "update_plot to_float (Some stored) m cs n =
           Inr (Empty_figure, No_valid_serials, No_data_for (requested cs))"
proof -
  let ?df = "keep_latest_run_only (read_json to_float stored)"
  have "\<forall>r\<in>set ?df. \<exists>v. SerialID r = Number v"
    using read_json_numeric[OF assms(1)] by (auto simp: keep_latest_run_only_def)
  then have n: "\<And>s. Str s \<notin> SerialID ` set ?df" by force
  have v: "filter (\<lambda>s. Str s \<in> SerialID ` set ?df) (requested cs) = []"
    using n by simp
  have mi: "filter (\<lambda>s. Str s \<notin> SerialID ` set ?df) (requested cs) = requested cs"
    using n by simp
  show ?thesis
    using assms(2) v mi by (simp add: update_plot_def Let_def)
qed

theorem numeric_serials_all_missing_witness:
  "sort (remdups (map SerialID numeric_serials)) = [''123'']
   \<and> update_plot example_float (Some numeric_serials) RAW (Some [''123'']) 100
       = Inr (Empty_figure, No_valid_serials, No_data_for [''123''])"
proof -
  have a: "list_all (\<lambda>r. example_float (SerialID r) \<noteq> None) numeric_serials"
    by (simp add: numeric_serials_def example_float_def with_run_index_def reading_def)
  have b: "requested (Some [''123'']) \<noteq> []" by (simp add: requested_def)
  have c: "sort (remdups (map SerialID numeric_serials)) = [''123'']"
    by (simp add: numeric_serials_def with_run_index_def reading_def)
  from numeric_serials_all_missing[OF a b, of RAW 100] c show ?thesis
    by (simp add: requested_def)
qed

end
